theory Spec2Isabelle
  imports Complex_Main "HOL-Library.AList" "HOL-Library.Multiset"
begin

section \<open>The reporter-ion search of \<open>tmt.py\<close>\<close>

text \<open>
  The theory embeds the matching core of \<open>src/tmt/tmt.py\<close>: the closest-element search
  (\<open>index_most_closed\<close>, \<open>most_closed\<close>), the ppm tolerance (\<open>Ppm\<close>), the reference list
  (\<open>DDAList\<close>), the spectrum (\<open>Spectrum.get_intensity\<close>) and the searcher
  (\<open>ReporterSearcher\<close>).

  Conventions of the embedding:
  \<^item> a Python \<open>float\<close> is a \<open>real\<close>: arithmetic is exact, and NaN and the infinities are
    not values (the one infinity of the source, the start value of \<open>min_diff\<close>, has a
    constructor of its own);
  \<^item> a Python exception is a value of \<open>error\<close>, and a function that can raise returns
    \<open>error + 'a\<close> with \<open>Inl\<close> for the exception;
  \<^item> every subscription \<open>a[i]\<close> of the source is the checked \<open>getitem\<close>;
  \<^item> an index is a \<open>nat\<close>: the source never computes a negative one (each
    \<open>bisect_i - 1\<close> and \<open>i - 1\<close> is taken where the minuend is at least 1);
  \<^item> the private fields \<open>_ppm\<close>, \<open>_data\<close> and \<open>_dda_list\<close> are \<open>ppm\<close>, \<open>data\<close> and
    \<open>dda_list\<close>; where a parameter of the source has the name of a field (\<open>mz\<close>, \<open>charge\<close>)
    it is \<open>m\<close>, \<open>ch\<close> here, and the resolved tolerance the source rebinds to \<open>tol\<close> is \<open>t\<close>.
\<close>

subsection \<open>Errors and checked subscription\<close>

datatype error = IndexError | ValueError

text \<open>\<open>a[i]\<close> for a list or a one-dimensional array and \<open>i \<ge> 0\<close>.\<close>

definition getitem :: "'a list \<Rightarrow> nat \<Rightarrow> error + 'a" where
  "getitem a i = (if i < length a then Inr (a ! i) else Inl IndexError)"

subsection \<open>\<open>bisect.bisect\<close> of the standard library\<close>

text \<open>
  \<open>bisect.bisect\<close> is \<open>bisect_right\<close>. The loop is the one of the library's Python source,
  with \<open>lo = 0\<close> and \<open>hi = len(a)\<close>:
  \<^verbatim>\<open>
    while lo < hi:
        mid = (lo + hi) // 2
        if x < key(a[mid]): hi = mid
        else: lo = mid + 1
    return lo
  \<close>
  A call with \<open>key=None\<close> compares \<open>x < a[mid]\<close>; it is the call with the identity \<open>id\<close> as key,
  here and in \<open>index_most_closed\<close>.
\<close>

function bisect_loop :: "real \<Rightarrow> 'a list \<Rightarrow> ('a \<Rightarrow> real) \<Rightarrow> nat \<Rightarrow> nat \<Rightarrow> error + nat" where
  "bisect_loop x a key lo hi =
     (if lo < hi then
        (case getitem a ((lo + hi) div 2) of
           Inl e \<Rightarrow> Inl e
         | Inr v \<Rightarrow>
             if x < key v then bisect_loop x a key lo ((lo + hi) div 2)
             else bisect_loop x a key ((lo + hi) div 2 + 1) hi)
      else Inr lo)"
  by pat_completeness auto
termination
  by (relation "measure (\<lambda>(x, a, key, lo, hi). hi - lo)") auto

declare bisect_loop.simps [simp del]

definition bisect :: "'a list \<Rightarrow> real \<Rightarrow> ('a \<Rightarrow> real) \<Rightarrow> error + nat" where
  "bisect a x key = bisect_loop x a key 0 (length a)"

subsection \<open>\<open>index_most_closed\<close> and \<open>most_closed\<close>\<close>

text \<open>
  \<open>min(candidates, key=f)\<close> of Python: the first element of the list at which \<open>f\<close> is
  least; \<open>ValueError\<close> on an empty list. \<open>f\<close> may raise.
\<close>

fun min_key_from :: "('a \<Rightarrow> error + real) \<Rightarrow> 'a \<Rightarrow> real \<Rightarrow> 'a list \<Rightarrow> error + 'a" where
  "min_key_from f best fbest [] = Inr best"
| "min_key_from f best fbest (c # cs) =
     (case f c of
        Inl e \<Rightarrow> Inl e
      | Inr fc \<Rightarrow> if fc < fbest then min_key_from f c fc cs else min_key_from f best fbest cs)"

definition min_key :: "'a list \<Rightarrow> ('a \<Rightarrow> error + real) \<Rightarrow> error + 'a" where
  "min_key cs f =
     (case cs of
        [] \<Rightarrow> Inl ValueError
      | c # cs' \<Rightarrow> (case f c of Inl e \<Rightarrow> Inl e | Inr fc \<Rightarrow> min_key_from f c fc cs'))"

definition index_most_closed :: "real \<Rightarrow> 'a list \<Rightarrow> ('a \<Rightarrow> real) \<Rightarrow> error + nat" where
  "index_most_closed x a key =
     (case bisect a x key of
        Inl e \<Rightarrow> Inl e
      | Inr bisect_i \<Rightarrow>
          if bisect_i = 0 then Inr 0
          else if bisect_i = length a then Inr (length a - 1)
          else min_key [bisect_i, bisect_i - 1]
                 (\<lambda>i. case getitem a i of Inl e \<Rightarrow> Inl e | Inr v \<Rightarrow> Inr \<bar>x - key v\<bar>))"

definition most_closed :: "real \<Rightarrow> 'a list \<Rightarrow> ('a \<Rightarrow> real) \<Rightarrow> error + 'a" where
  "most_closed x a key =
     (case index_most_closed x a key of Inl e \<Rightarrow> Inl e | Inr i \<Rightarrow> getitem a i)"

subsection \<open>Tolerances\<close>

text \<open>
  \<open>Ppm\<close> is the class with the field \<open>_ppm\<close> and the method \<open>__call__\<close>. A tolerance
  argument is typed \<open>float | Ppm\<close> in the source; \<open>resolve_tol\<close> is the expression
  \<^verbatim>\<open>tol(mz) if isinstance(tol, Ppm) else tol\<close> that \<open>find\<close> and \<open>get_intensity\<close> both open with.
\<close>

datatype Ppm = Ppm (ppm: real)

definition Ppm_call :: "Ppm \<Rightarrow> real \<Rightarrow> real" where
  "Ppm_call self m = ppm self * m / 1000000"

datatype tol_arg = TolFloat real | TolPpm Ppm

definition resolve_tol :: "tol_arg \<Rightarrow> real \<Rightarrow> real" where
  "resolve_tol tol m = (case tol of TolPpm p \<Rightarrow> Ppm_call p m | TolFloat t \<Rightarrow> t)"

subsection \<open>\<open>Ion\<close> and \<open>DDAList\<close>\<close>

record Ion =
  mz :: real
  charge :: int

record DDAList =
  data :: "Ion list"

text \<open>
  Construction runs the converter \<^verbatim>\<open>lambda l: sorted(l, key=attrgetter("mz"))\<close> on the
  argument. \<open>sorted\<close> builds a new list and is stable, as \<open>sort_key\<close> is. The result is the
  pair of the caller's list as it is after the call and the new object.
\<close>

definition DDAList_init :: "Ion list \<Rightarrow> Ion list \<times> DDAList" where
  "DDAList_init l = (l, \<lparr>data = sort_key mz l\<rparr>)"

definition DDAList_find :: "DDAList \<Rightarrow> real \<Rightarrow> tol_arg \<Rightarrow> int \<Rightarrow> error + Ion option" where
  "DDAList_find self m tol ch =
     (case most_closed m (data self) mz of
        Inl e \<Rightarrow> Inl e
      | Inr candidate \<Rightarrow>
          (let t = resolve_tol tol m
           in if \<bar>mz candidate - m\<bar> \<le> t \<and> charge candidate = ch then Inr (Some candidate)
              else Inr None))"

text \<open>
  \<open>find\<close> is the only instance method of \<open>DDAList\<close>, and it assigns nothing: a call leaves
  the object as it was. \<open>DDAList_call\<close> gives the object after a call and the call's outcome.
\<close>

datatype DDAList_op = Find real tol_arg int

fun DDAList_call :: "DDAList \<Rightarrow> DDAList_op \<Rightarrow> DDAList \<times> (error + Ion option)" where
  "DDAList_call self (Find m tol ch) = (self, DDAList_find self m tol ch)"

definition DDAList_after :: "DDAList \<Rightarrow> DDAList_op list \<Rightarrow> DDAList" where
  "DDAList_after self ops = fold (\<lambda>c d. fst (DDAList_call d c)) ops self"

subsection \<open>\<open>Spectrum\<close>\<close>

record Spectrum =
  scan :: int
  precursor_mz :: real
  precursor_charge :: int
  mz_a :: "real list"
  intensity_a :: "real list"

definition get_intensity :: "Spectrum \<Rightarrow> real \<Rightarrow> tol_arg \<Rightarrow> error + real" where
  "get_intensity self m tol =
     (let t = resolve_tol tol m
      in case index_most_closed m (mz_a self) id of
           Inl e \<Rightarrow> Inl e
         | Inr peak_i \<Rightarrow>
             (case getitem (mz_a self) peak_i of
                Inl e \<Rightarrow> Inl e
              | Inr pm \<Rightarrow> if \<bar>pm - m\<bar> < t then getitem (intensity_a self) peak_i else Inr 0))"

subsection \<open>\<open>REPORTERS\<close> and \<open>ReporterSearcher\<close>\<close>

definition REPORTERS :: "real list" where
  "REPORTERS =
     [126.127726, 127.124761, 127.131081, 128.128116, 128.134436,
      129.131471, 129.137790, 130.134825, 130.141145, 131.138180]"

text \<open>
  The values \<open>min_\<close> of \<open>min_diff\<close> takes: the float infinity it starts with, a float, or a
  \<open>bool\<close>. Python compares a \<open>bool\<close> with a float as the number 0 or 1.
\<close>

datatype pynum = PyFloat real | PyInf | PyBool bool

fun py_lt :: "pynum \<Rightarrow> pynum \<Rightarrow> bool" where
  "py_lt (PyFloat x) (PyFloat y) = (x < y)"
| "py_lt (PyFloat x) PyInf = True"
| "py_lt (PyFloat x) (PyBool b) = (x < (if b then 1 else 0))"
| "py_lt PyInf y = False"
| "py_lt (PyBool b) (PyFloat y) = ((if b then 1 else 0) < y)"
| "py_lt (PyBool b) PyInf = True"
| "py_lt (PyBool b) (PyBool c) = (\<not> b \<and> c)"

fun py_truthy :: "pynum \<Rightarrow> bool" where
  "py_truthy (PyFloat x) = (x \<noteq> 0)"
| "py_truthy PyInf = True"
| "py_truthy (PyBool b) = b"

text \<open>
  The body of the loop of \<open>min_diff\<close>:
  \<^verbatim>\<open>
    if diff := a[i] - a[i - 1] < min_:
        min_ = diff
  \<close>
  \<open>:=\<close> binds weaker than \<open><\<close>: \<open>diff\<close> is the outcome of the comparison, a \<open>bool\<close>.
  \<open>cur_min\<close> is the variable \<open>min_\<close>.
\<close>

definition min_diff_body :: "real list \<Rightarrow> pynum \<Rightarrow> nat \<Rightarrow> error + pynum" where
  "min_diff_body a cur_min i =
     (case getitem a i of
        Inl e \<Rightarrow> Inl e
      | Inr ai \<Rightarrow>
          (case getitem a (i - 1) of
             Inl e \<Rightarrow> Inl e
           | Inr aj \<Rightarrow>
               (let diff = PyBool (py_lt (PyFloat (ai - aj)) cur_min)
                in Inr (if py_truthy diff then diff else cur_min))))"

fun min_diff_loop :: "real list \<Rightarrow> nat list \<Rightarrow> pynum \<Rightarrow> error + pynum" where
  "min_diff_loop a [] cur_min = Inr cur_min"
| "min_diff_loop a (i # is) cur_min =
     (case min_diff_body a cur_min i of Inl e \<Rightarrow> Inl e | Inr m \<Rightarrow> min_diff_loop a is m)"

text \<open>\<open>range(1, len(a) - 1)\<close> is empty when \<open>len(a) \<le> 2\<close>, as \<open>[1..<length a - 1]\<close> is.\<close>

definition min_diff :: "real list \<Rightarrow> error + pynum" where
  "min_diff a0 = (let a = sort a0 in min_diff_loop a [1..<length a - 1] PyInf)"

text \<open>\<open>max\<close> of a list: \<open>ValueError\<close> when it is empty.\<close>

definition py_max :: "real list \<Rightarrow> error + real" where
  "py_max xs =
     (case xs of
        [] \<Rightarrow> Inl ValueError
      | x # xs' \<Rightarrow> Inr (fold (\<lambda>item best. if best < item then item else best) xs' x))"

text \<open>The validator of \<open>ms2_tol\<close>; \<open>tol > reporter_min_diff\<close> is \<open>reporter_min_diff < tol\<close>.\<close>

definition check_ms2_tol :: "tol_arg \<Rightarrow> error + unit" where
  "check_ms2_tol val =
     (case min_diff REPORTERS of
        Inl e \<Rightarrow> Inl e
      | Inr reporter_min_diff \<Rightarrow>
          (case (case val of
                   TolPpm p \<Rightarrow>
                     (case py_max REPORTERS of Inl e \<Rightarrow> Inl e | Inr m \<Rightarrow> Inr (Ppm_call p m))
                 | TolFloat t \<Rightarrow> Inr t) of
             Inl e \<Rightarrow> Inl e
           | Inr tol \<Rightarrow>
               if py_lt reporter_min_diff (PyFloat tol) then Inl ValueError else Inr ()))"

record ReporterSearcher =
  dda_list :: DDAList
  ms1_tol :: tol_arg
  ms2_tol :: tol_arg

definition ReporterSearcher_init :: "DDAList \<Rightarrow> tol_arg \<Rightarrow> tol_arg \<Rightarrow> error + ReporterSearcher" where
  "ReporterSearcher_init d t1 t2 =
     (case check_ms2_tol t2 of
        Inl e \<Rightarrow> Inl e
      | Inr u \<Rightarrow> Inr \<lparr>dda_list = d, ms1_tol = t1, ms2_tol = t2\<rparr>)"

datatype SearchRecord =
  SearchRecord (sr_scan: int) (sr_precursor_mz: real) (reporters: "(real \<times> real) list")

text \<open>
  The dict comprehension \<^verbatim>\<open>{mz: spec.get_intensity(mz, tol=self.ms2_tol) for mz in REPORTERS}\<close>.
  A dict keeps its keys in the order of their first insertion and a later value for a key
  replaces the earlier one: \<open>AList.update\<close> on an association list.
\<close>

fun dict_comp :: "Spectrum \<Rightarrow> tol_arg \<Rightarrow> real list \<Rightarrow> (real \<times> real) list \<Rightarrow> error + (real \<times> real) list" where
  "dict_comp spec tol [] d = Inr d"
| "dict_comp spec tol (k # ks) d =
     (case get_intensity spec k tol of
        Inl e \<Rightarrow> Inl e
      | Inr v \<Rightarrow> dict_comp spec tol ks (AList.update k v d))"

text \<open>
  The body of the loop of \<open>run\<close> for one spectrum: an exception, no record, or the record it
  yields. An \<open>Ion\<close> is truthy (the class has neither \<open>__bool__\<close> nor \<open>__len__\<close>), \<open>None\<close> is not.
\<close>

definition run_body :: "ReporterSearcher \<Rightarrow> Spectrum \<Rightarrow> error + SearchRecord option" where
  "run_body self spec =
     (case DDAList_find (dda_list self) (precursor_mz spec) (ms1_tol self) (precursor_charge spec) of
        Inl e \<Rightarrow> Inl e
      | Inr None \<Rightarrow> Inr None
      | Inr (Some precursor) \<Rightarrow>
          (case dict_comp spec (ms2_tol self) REPORTERS [] of
             Inl e \<Rightarrow> Inl e
           | Inr d \<Rightarrow> Inr (Some (SearchRecord (scan spec) (mz precursor) d))))"

text \<open>
  \<open>run\<close> is a generator over the spectra of the reader. Its outcome is the list of the
  records it yields, in the order it yields them, and the exception that ends it, if one does.
\<close>

fun run :: "ReporterSearcher \<Rightarrow> Spectrum list \<Rightarrow> SearchRecord list \<times> error option" where
  "run self [] = ([], None)"
| "run self (spec # rest) =
     (case run_body self spec of
        Inl e \<Rightarrow> ([], Some e)
      | Inr None \<Rightarrow> run self rest
      | Inr (Some r) \<Rightarrow> (case run self rest of (rs, e) \<Rightarrow> (r # rs, e)))"

subsection \<open>The minimum gap of the specification\<close>

text \<open>
  The validation rule of the specification, in its words: the minimum gap between
  consecutive reporter m/z values of the list in ascending order, that is the least of all
  the differences of two neighbours of the sorted list. It is \<open>None\<close> for a list of fewer
  than two values. The definition follows the specification, not \<open>min_diff\<close>, and serves
  to compare the two.
\<close>

definition consecutive_gaps :: "real list \<Rightarrow> real list" where
  "consecutive_gaps a = (let s = sort a in map2 (\<lambda>u v. v - u) s (tl s))"

definition spec_min_gap :: "real list \<Rightarrow> real option" where
  "spec_min_gap a = (case consecutive_gaps a of [] \<Rightarrow> None | g # gs \<Rightarrow> Some (fold min gs g))"

subsection \<open>Example data\<close>

text \<open>
  The reference list of the fixture \<open>dda_list\<close> of \<open>test_tmt.py\<close>, the spectrum of its
  fixture \<open>spec\<close> (with a scan number and a precursor), and three spectra for a run of the
  searcher: one whose precursor matches the ion \<open>(1000, 3)\<close> and that has peaks at the
  first and the last reporter, one whose precursor matches no ion, and one that matches
  and has no peaks.
\<close>

definition test_ions :: "Ion list" where
  "test_ions = [\<lparr>mz = 1000, charge = 3\<rparr>, \<lparr>mz = 2000, charge = 3\<rparr>, \<lparr>mz = 3000, charge = 4\<rparr>]"

definition test_dda_list :: DDAList where
  "test_dda_list = snd (DDAList_init test_ions)"


definition test_searcher :: ReporterSearcher where
  "test_searcher = \<lparr>dda_list = test_dda_list, ms1_tol = TolPpm (Ppm 20), ms2_tol = TolPpm (Ppm 20)\<rparr>"

definition spec_hit :: Spectrum where
  "spec_hit = \<lparr>scan = 7, precursor_mz = 1000.01, precursor_charge = 3,
                mz_a = [126.127726, 131.138180], intensity_a = [10, 20]\<rparr>"

definition spec_miss :: Spectrum where
  "spec_miss = \<lparr>scan = 8, precursor_mz = 1500, precursor_charge = 3,
                 mz_a = [126.127726], intensity_a = [5]\<rparr>"

definition spec_empty :: Spectrum where
  "spec_empty = \<lparr>scan = 9, precursor_mz = 1000, precursor_charge = 3,
                  mz_a = [], intensity_a = []\<rparr>"

section \<open>Properties\<close>

subsection \<open>The insertion point\<close>


lemma bisect_loop_bounds:
  "lo \<le> hi \<Longrightarrow> hi \<le> length a \<Longrightarrow>
   \<exists>p. bisect_loop x a key lo hi = Inr p \<and> lo \<le> p \<and> p \<le> hi"
proof (induction x a key lo hi rule: bisect_loop.induct)
  case (1 x a key lo hi)
  show ?case
  proof (cases "lo < hi")
    case False
    with "1.prems" show ?thesis by (simp add: bisect_loop.simps)
  next
    case True
    let ?mid = "(lo + hi) div 2"
    from True "1.prems" have mid: "lo \<le> ?mid" "?mid < hi" "?mid < length a" by auto
    then have g: "getitem a ?mid = Inr (a ! ?mid)" by (simp add: getitem_def)
    show ?thesis
    proof (cases "x < key (a ! ?mid)")
      case lt: True
      from "1.IH"(1)[OF True g lt] mid "1.prems"
      obtain p where "bisect_loop x a key lo ?mid = Inr p" "lo \<le> p" "p \<le> ?mid" by auto
      with True g lt mid show ?thesis
        by (subst bisect_loop.simps) auto
    next
      case ge: False
      from "1.IH"(2)[OF True g ge] mid "1.prems"
      obtain p where "bisect_loop x a key (?mid + 1) hi = Inr p" "?mid + 1 \<le> p" "p \<le> hi" by auto
      with True g ge mid show ?thesis
        by (subst bisect_loop.simps) auto
    qed
  qed
qed

lemma bisect_loop_partition:
  "sorted (map key a) \<Longrightarrow> lo \<le> hi \<Longrightarrow> hi \<le> length a \<Longrightarrow>
   (\<forall>i<lo. key (a ! i) \<le> x) \<Longrightarrow> (\<forall>i. hi \<le> i \<and> i < length a \<longrightarrow> x < key (a ! i)) \<Longrightarrow>
   bisect_loop x a key lo hi = Inr p \<Longrightarrow>
   (\<forall>i<p. key (a ! i) \<le> x) \<and> (\<forall>i. p \<le> i \<and> i < length a \<longrightarrow> x < key (a ! i))"
proof (induction x a key lo hi rule: bisect_loop.induct)
  case (1 x a key lo hi)
  show ?case
  proof (cases "lo < hi")
    case False
    with "1.prems" show ?thesis by (simp add: bisect_loop.simps)
  next
    case True
    let ?mid = "(lo + hi) div 2"
    from True "1.prems" have mid: "lo \<le> ?mid" "?mid < hi" "?mid < length a" by auto
    then have g: "getitem a ?mid = Inr (a ! ?mid)" by (simp add: getitem_def)
    have mono: "\<And>i j. i \<le> j \<Longrightarrow> j < length a \<Longrightarrow> key (a ! i) \<le> key (a ! j)"
      using "1.prems"(1) by (auto simp: sorted_iff_nth_mono)
    show ?thesis
    proof (cases "x < key (a ! ?mid)")
      case lt: True
      have r: "bisect_loop x a key lo ?mid = Inr p"
        using "1.prems"(6) True g lt by (subst (asm) bisect_loop.simps) simp
      have up: "\<forall>i. ?mid \<le> i \<and> i < length a \<longrightarrow> x < key (a ! i)"
        using lt mono by (meson less_le_trans)
      from "1.IH"(1)[OF True g lt "1.prems"(1) _ _ "1.prems"(4) up r] mid
      show ?thesis by auto
    next
      case ge: False
      have r: "bisect_loop x a key (?mid + 1) hi = Inr p"
        using "1.prems"(6) True g ge by (subst (asm) bisect_loop.simps) simp
      have low: "\<forall>i<?mid + 1. key (a ! i) \<le> x"
      proof (intro allI impI)
        fix i assume "i < ?mid + 1"
        then have "i \<le> ?mid" by simp
        from mono[OF this mid(3)] ge show "key (a ! i) \<le> x" by simp
      qed
      from "1.IH"(2)[OF True g ge "1.prems"(1) _ "1.prems"(3) low "1.prems"(5) r] mid
      show ?thesis by auto
    qed
  qed
qed

lemma bisect_returns: "\<exists>p. bisect a x key = Inr p \<and> p \<le> length a"
  using bisect_loop_bounds[of 0 "length a" a x key] by (auto simp: bisect_def)

lemma bisect_partition:
  assumes "sorted (map key a)" and "bisect a x key = Inr p"
  shows "(\<forall>i<p. key (a ! i) \<le> x) \<and> (\<forall>i. p \<le> i \<and> i < length a \<longrightarrow> x < key (a ! i))"
  using bisect_loop_partition[of key a 0 "length a" x p] assms by (simp add: bisect_def)

lemma index_most_closed_unfold:
  assumes "bisect a x key = Inr p"
  shows "index_most_closed x a key =
           Inr (if p = 0 then 0
                else if p = length a then length a - 1
                else if \<bar>x - key (a ! (p - 1))\<bar> < \<bar>x - key (a ! p)\<bar> then p - 1 else p)"
proof -
  from bisect_returns[of a x key] assms have "p \<le> length a" by auto
  then show ?thesis
    using assms by (auto simp: index_most_closed_def min_key_def getitem_def)
qed

lemma index_most_closed_returns:
  assumes "a \<noteq> []"
  shows "\<exists>i. index_most_closed x a key = Inr i \<and> i < length a"
proof -
  obtain p where p: "bisect a x key = Inr p" "p \<le> length a"
    using bisect_returns[of a x key] by auto
  from assms have "0 < length a" by simp
  with p(2) show ?thesis
    unfolding index_most_closed_unfold[OF p(1)] by auto
qed

lemma index_most_closed_sorted:
  assumes "a \<noteq> []" and "sorted (map key a)"
  shows "\<exists>i p. index_most_closed x a key = Inr i \<and> bisect a x key = Inr p \<and> i < length a
           \<and> (\<forall>j<length a. \<bar>key (a ! i) - x\<bar> \<le> \<bar>key (a ! j) - x\<bar>)
           \<and> p \<le> length a \<and> (\<forall>j<p. key (a ! j) \<le> x)
           \<and> (\<forall>j. p \<le> j \<and> j < length a \<longrightarrow> x < key (a ! j))
           \<and> (p = 0 \<longrightarrow> i = 0) \<and> (p = length a \<longrightarrow> i = length a - 1)
           \<and> (0 < p \<and> p < length a \<longrightarrow>
                i = (if \<bar>key (a ! (p - 1)) - x\<bar> < \<bar>key (a ! p) - x\<bar> then p - 1 else p))"
proof -
  obtain p where p: "bisect a x key = Inr p" "p \<le> length a"
    using bisect_returns[of a x key] by auto
  from assms(1) have len: "0 < length a" by simp
  have lo: "\<And>i. i < p \<Longrightarrow> key (a ! i) \<le> x"
    and hi: "\<And>i. p \<le> i \<Longrightarrow> i < length a \<Longrightarrow> x < key (a ! i)"
    using bisect_partition[OF assms(2) p(1)] by auto
  have mono: "\<And>i j. i \<le> j \<Longrightarrow> j < length a \<Longrightarrow> key (a ! i) \<le> key (a ! j)"
    using assms(2) by (auto simp: sorted_iff_nth_mono)
  define i where "i = (if p = 0 then 0 else if p = length a then length a - 1
        else if \<bar>x - key (a ! (p - 1))\<bar> < \<bar>x - key (a ! p)\<bar> then p - 1 else p)"
  have r: "index_most_closed x a key = Inr i"
    unfolding i_def by (rule index_most_closed_unfold[OF p(1)])
  have range: "i < length a" using len p(2) by (auto simp: i_def)
  have best: "\<bar>key (a ! i) - x\<bar> \<le> \<bar>key (a ! j) - x\<bar>" if j: "j < length a" for j
  proof (cases "p = 0")
    case True
    then have "i = 0" by (simp add: i_def)
    moreover have "x < key (a ! 0)" using hi[of 0] True len by simp
    moreover have "key (a ! 0) \<le> key (a ! j)" using mono[of 0 j] j by simp
    ultimately show ?thesis by simp
  next
    case p0: False
    show ?thesis
    proof (cases "p = length a")
      case True
      then have "i = length a - 1" using p0 by (simp add: i_def)
      moreover have "key (a ! (length a - 1)) \<le> x" using lo[of "length a - 1"] True len by simp
      moreover have "key (a ! j) \<le> key (a ! (length a - 1))" using mono[of j "length a - 1"] j len by simp
      ultimately show ?thesis by simp
    next
      case False
      with p(2) p0 have pin: "0 < p" "p < length a" by auto
      have below: "key (a ! (p - 1)) \<le> x" using lo[of "p - 1"] pin by simp
      have above: "x < key (a ! p)" using hi[of p] pin by simp
      have ii: "i = (if \<bar>x - key (a ! (p - 1))\<bar> < \<bar>x - key (a ! p)\<bar> then p - 1 else p)"
        using p0 False by (simp add: i_def)
      show ?thesis
      proof (cases "j < p")
        case True
        then have "key (a ! j) \<le> key (a ! (p - 1))" using mono[of j "p - 1"] pin by simp
        with below above ii show ?thesis by (auto split: if_splits)
      next
        case False
        then have "key (a ! p) \<le> key (a ! j)" using mono[of p j] j by simp
        with below above ii show ?thesis by (auto split: if_splits)
      qed
    qed
  qed
  have tie: "0 < p \<and> p < length a \<longrightarrow>
      i = (if \<bar>key (a ! (p - 1)) - x\<bar> < \<bar>key (a ! p) - x\<bar> then p - 1 else p)"
    by (auto simp: i_def abs_minus_commute)
  have b0: "p = 0 \<longrightarrow> i = 0" by (simp add: i_def)
  have b1: "p = length a \<longrightarrow> i = length a - 1" by (auto simp: i_def)
  have part: "(\<forall>j<p. key (a ! j) \<le> x) \<and> (\<forall>j. p \<le> j \<and> j < length a \<longrightarrow> x < key (a ! j))"
    using lo hi by blast
  from r p range best tie b0 b1 part show ?thesis by blast
qed



lemma most_closed_empty: "most_closed x [] key = Inl IndexError"
  by (simp add: most_closed_def index_most_closed_def bisect_def bisect_loop.simps getitem_def)

subsection \<open>Calls that return\<close>

lemma get_intensity_returns:
  assumes "mz_a s \<noteq> []" and "length (intensity_a s) = length (mz_a s)"
  shows "\<exists>v. get_intensity s m tol = Inr v"
proof -
  obtain i where i: "index_most_closed m (mz_a s) id = Inr i" "i < length (mz_a s)"
    using index_most_closed_returns[OF assms(1)] by blast
  with assms(2) show ?thesis by (simp add: get_intensity_def getitem_def)
qed

lemma DDAList_after_same: "DDAList_after d ops = d"
proof -
  have "fold (\<lambda>c d. fst (DDAList_call d c)) ops d = d"
  proof (induction ops)
    case Nil
    show ?case by simp
  next
    case (Cons c ops)
    then show ?case by (cases c) simp
  qed
  then show ?thesis by (simp add: DDAList_after_def)
qed

subsection \<open>The dict of reporter intensities\<close>

lemma update_fresh: "k \<notin> fst ` set al \<Longrightarrow> AList.update k v al = al @ [(k, v)]"
  by (induction al) auto

lemma dict_comp_returns:
  assumes "\<forall>k\<in>set ks. \<exists>v. get_intensity spec k tol = Inr v"
    and "distinct ks" and "set ks \<inter> fst ` set d = {}"
  shows "dict_comp spec tol ks d = Inr (d @ map (\<lambda>k. (k, projr (get_intensity spec k tol))) ks)"
  using assms
proof (induction ks arbitrary: d)
  case Nil
  show ?case by simp
next
  case (Cons k ks)
  from Cons.prems(1) obtain v where v: "get_intensity spec k tol = Inr v" by auto
  from Cons.prems(3) have fresh: "k \<notin> fst ` set d" by auto
  have up: "AList.update k v d = d @ [(k, v)]" by (rule update_fresh[OF fresh])
  have "dict_comp spec tol ks (d @ [(k, v)])
          = Inr ((d @ [(k, v)]) @ map (\<lambda>k. (k, projr (get_intensity spec k tol))) ks)"
    using Cons.prems by (intro Cons.IH) auto
  with v up show ?case by simp
qed

lemma distinct_REPORTERS: "distinct REPORTERS"
  by (simp add: REPORTERS_def)

lemma dict_comp_REPORTERS:
  assumes "\<forall>k\<in>set REPORTERS. \<exists>v. get_intensity spec k tol = Inr v"
  shows "\<exists>d. dict_comp spec tol REPORTERS [] = Inr d \<and> map fst d = REPORTERS
           \<and> (\<forall>i<length d. get_intensity spec (fst (d ! i)) tol = Inr (snd (d ! i)))"
proof -
  let ?d = "map (\<lambda>k. (k, projr (get_intensity spec k tol))) REPORTERS"
  have r: "dict_comp spec tol REPORTERS [] = Inr ?d"
    using dict_comp_returns[OF assms distinct_REPORTERS, of "[]"] by simp
  have keys: "map fst ?d = REPORTERS" by (simp add: comp_def)
  have vals: "\<forall>i<length ?d. get_intensity spec (fst (?d ! i)) tol = Inr (snd (?d ! i))"
  proof (intro allI impI)
    fix i assume "i < length ?d"
    then have i: "i < length REPORTERS" by simp
    then have "REPORTERS ! i \<in> set REPORTERS" by simp
    with assms obtain v where "get_intensity spec (REPORTERS ! i) tol = Inr v" by blast
    with i show "get_intensity spec (fst (?d ! i)) tol = Inr (snd (?d ! i))" by simp
  qed
  from r keys vals show ?thesis by blast
qed

lemma dict_comp_raises:
  assumes "\<forall>j\<in>set ks. \<exists>v. get_intensity spec j tol = Inr v"
    and "get_intensity spec k tol = Inl e"
  shows "dict_comp spec tol (ks @ k # ks') d = Inl e"
  using assms(1)
proof (induction ks arbitrary: d)
  case Nil
  show ?case using assms(2) by simp
next
  case (Cons j ks)
  from Cons.prems obtain v where "get_intensity spec j tol = Inr v" by auto
  moreover have "dict_comp spec tol (ks @ k # ks') (AList.update j v d) = Inl e"
    using Cons.prems by (intro Cons.IH) simp
  ultimately show ?case by simp
qed

subsection \<open>The validator on \<open>REPORTERS\<close>\<close>

lemma min_diff_REPORTERS: "min_diff REPORTERS = Inr (PyBool True)"
  by (simp add: min_diff_def REPORTERS_def min_diff_body_def getitem_def upt_conv_Cons)

lemma py_max_REPORTERS: "py_max REPORTERS = Inr 131.138180"
  by (simp add: py_max_def REPORTERS_def)

lemma spec_min_gap_REPORTERS: "spec_min_gap REPORTERS = Some 0.006319"
  by (simp add: spec_min_gap_def consecutive_gaps_def REPORTERS_def)

text \<open>
  \<open>min_diff(REPORTERS)\<close> is \<open>True\<close>, which compares as 1: the validator raises exactly when
  the tolerance, resolved at the largest reporter, is above 1.
\<close>

lemma check_ms2_tol_threshold:
  "check_ms2_tol val = (if 1 < resolve_tol val 131.138180 then Inl ValueError else Inr ())"
  by (cases val)
    (simp_all add: check_ms2_tol_def min_diff_REPORTERS py_max_REPORTERS resolve_tol_def)

subsection \<open>The example data, evaluated\<close>

lemmas search_eval = index_most_closed_def bisect_def bisect_loop.simps getitem_def min_key_def
  most_closed_def

lemma test_dda_list_data: "data test_dda_list = test_ions"
  by (simp add: test_dda_list_def DDAList_init_def test_ions_def)

lemma find_spec_miss:
  "DDAList_find (dda_list test_searcher) (precursor_mz spec_miss) (ms1_tol test_searcher)
     (precursor_charge spec_miss) = Inr None"
  by (simp add: test_searcher_def spec_miss_def DDAList_find_def test_dda_list_data test_ions_def
        search_eval resolve_tol_def Ppm_call_def)

lemma find_spec_hit:
  "DDAList_find (dda_list test_searcher) (precursor_mz spec_hit) (ms1_tol test_searcher)
     (precursor_charge spec_hit) = Inr (Some \<lparr>mz = 1000, charge = 3\<rparr>)"
  by (simp add: test_searcher_def spec_hit_def DDAList_find_def test_dda_list_data test_ions_def
        search_eval resolve_tol_def Ppm_call_def)

lemma find_spec_empty:
  "DDAList_find (dda_list test_searcher) (precursor_mz spec_empty) (ms1_tol test_searcher)
     (precursor_charge spec_empty) = Inr (Some \<lparr>mz = 1000, charge = 3\<rparr>)"
  by (simp add: test_searcher_def spec_empty_def DDAList_find_def test_dda_list_data test_ions_def
        search_eval resolve_tol_def Ppm_call_def)

lemma get_intensity_spec_empty: "get_intensity spec_empty m tol = Inl IndexError"
  by (simp add: get_intensity_def spec_empty_def search_eval)

lemma run_body_spec_empty: "run_body test_searcher spec_empty = Inl IndexError"
  using find_spec_empty by (simp add: run_body_def REPORTERS_def get_intensity_spec_empty)

lemma spec_hit_returns: "\<forall>k\<in>set REPORTERS. \<exists>v. get_intensity spec_hit k (ms2_tol test_searcher) = Inr v"
proof
  fix k
  have "mz_a spec_hit \<noteq> []" "length (intensity_a spec_hit) = length (mz_a spec_hit)"
    by (simp_all add: spec_hit_def)
  then show "\<exists>v. get_intensity spec_hit k (ms2_tol test_searcher) = Inr v"
    by (rule get_intensity_returns)
qed

lemma dict_spec_hit:
  "dict_comp spec_hit (TolPpm (Ppm 20)) REPORTERS [] =
     Inr [(126.127726, 10), (127.124761, 0), (127.131081, 0), (128.128116, 0), (128.134436, 0),
          (129.131471, 0), (129.137790, 0), (130.134825, 0), (130.141145, 0), (131.138180, 20)]"
  by (simp add: REPORTERS_def get_intensity_def spec_hit_def search_eval resolve_tol_def Ppm_call_def)

lemma run_miss_hit:
  "run test_searcher [spec_miss, spec_hit] =
     ([SearchRecord 7 1000
        [(126.127726, 10), (127.124761, 0), (127.131081, 0), (128.128116, 0), (128.134436, 0),
         (129.131471, 0), (129.137790, 0), (130.134825, 0), (130.141145, 0), (131.138180, 20)]],
      None)"
proof -
  have m: "run_body test_searcher spec_miss = Inr None"
    using find_spec_miss by (simp add: run_body_def)
  have h: "run_body test_searcher spec_hit = Inr (Some (SearchRecord 7 1000
        [(126.127726, 10), (127.124761, 0), (127.131081, 0), (128.128116, 0), (128.134436, 0),
         (129.131471, 0), (129.137790, 0), (130.134825, 0), (130.141145, 0), (131.138180, 20)]))"
    using find_spec_hit dict_spec_hit
    by (simp add: run_body_def) (simp add: test_searcher_def spec_hit_def)
  show ?thesis by (simp add: m h)
qed

subsection \<open>Closest-element search\<close>

text \<open>
  Claim C1, as the code has it. For a non-empty sequence \<open>a\<close> that is ascending under \<open>key\<close>
  and a query \<open>x\<close>, \<open>index_most_closed\<close> returns an index \<open>i\<close> of \<open>a\<close> at which
  \<open>abs(key(a[i]) - x)\<close> is least over all indices. With \<open>p\<close> the insertion point of
  \<open>bisect\<close>, after the elements with a key of at most \<open>x\<close> and before those with a greater
  key: it returns 0 when \<open>p = 0\<close> and \<open>len(a) - 1\<close> when \<open>p = len(a)\<close>; for \<open>p\<close> in
  between it returns \<open>p - 1\<close> when that neighbour is strictly closer and \<open>p\<close> otherwise, so on
  a tie of the two neighbours it returns the upper index \<open>p\<close>, which \<open>min\<close> meets first in
  \<open>[bisect_i, bisect_i - 1]\<close>.
\<close>

theorem index_most_closed_closest:
  assumes "a \<noteq> []" and "sorted (map key a)"
  shows "\<exists>i p. index_most_closed x a key = Inr i \<and> bisect a x key = Inr p \<and> i < length a
           \<and> (\<forall>j<length a. \<bar>key (a ! i) - x\<bar> \<le> \<bar>key (a ! j) - x\<bar>)
           \<and> p \<le> length a \<and> (\<forall>j<p. key (a ! j) \<le> x)
           \<and> (\<forall>j. p \<le> j \<and> j < length a \<longrightarrow> x < key (a ! j))
           \<and> (p = 0 \<longrightarrow> i = 0) \<and> (p = length a \<longrightarrow> i = length a - 1)
           \<and> (0 < p \<and> p < length a \<longrightarrow>
                i = (if \<bar>key (a ! (p - 1)) - x\<bar> < \<bar>key (a ! p) - x\<bar> then p - 1 else p))"
  using assms by (rule index_most_closed_sorted)

text \<open>The theorem at \<open>x = 4\<close> and \<open>a = [1, 2, 3, 7, 8]\<close>, where the index is 2.\<close>

theorem index_most_closed_closest_witness:
  "[1, 2, 3, 7, 8 :: real] \<noteq> [] \<and> sorted (map id [1, 2, 3, 7, 8 :: real])
   \<and> (\<exists>i p. index_most_closed 4 [1, 2, 3, 7, 8 :: real] id = Inr i
          \<and> bisect [1, 2, 3, 7, 8 :: real] 4 id = Inr p \<and> i < length [1, 2, 3, 7, 8 :: real]
          \<and> (\<forall>j<length [1, 2, 3, 7, 8 :: real].
                \<bar>id ([1, 2, 3, 7, 8 :: real] ! i) - 4\<bar> \<le> \<bar>id ([1, 2, 3, 7, 8 :: real] ! j) - 4\<bar>)
          \<and> p \<le> length [1, 2, 3, 7, 8 :: real] \<and> (\<forall>j<p. id ([1, 2, 3, 7, 8 :: real] ! j) \<le> 4)
          \<and> (\<forall>j. p \<le> j \<and> j < length [1, 2, 3, 7, 8 :: real] \<longrightarrow> 4 < id ([1, 2, 3, 7, 8 :: real] ! j))
          \<and> (p = 0 \<longrightarrow> i = 0)
          \<and> (p = length [1, 2, 3, 7, 8 :: real] \<longrightarrow> i = length [1, 2, 3, 7, 8 :: real] - 1)
          \<and> (0 < p \<and> p < length [1, 2, 3, 7, 8 :: real] \<longrightarrow>
                i = (if \<bar>id ([1, 2, 3, 7, 8 :: real] ! (p - 1)) - 4\<bar>
                         < \<bar>id ([1, 2, 3, 7, 8 :: real] ! p) - 4\<bar>
                     then p - 1 else p)))
   \<and> index_most_closed 4 [1, 2, 3, 7, 8 :: real] id = Inr 2"
proof -
  have h1: "[1, 2, 3, 7, 8 :: real] \<noteq> []" by simp
  have h2: "sorted (map id [1, 2, 3, 7, 8 :: real])" by simp
  have v: "index_most_closed 4 [1, 2, 3, 7, 8 :: real] id = Inr 2"
    by (simp add: index_most_closed_def bisect_def bisect_loop.simps getitem_def min_key_def)
  show ?thesis
    by (intro conjI h1 h2 v index_most_closed_closest[OF h1 h2])
qed

text \<open>
  The lower index does not win a tie: in \<open>[1, 3]\<close> both elements are at distance 1 of the
  query 2, and the index returned is 1.
\<close>

theorem index_most_closed_tie_counterexample:
  "[1, 3 :: real] \<noteq> [] \<and> sorted (map id [1, 3 :: real])
   \<and> index_most_closed 2 [1, 3 :: real] id = Inr 1
   \<and> \<bar>id ([1, 3 :: real] ! 0) - 2\<bar> = \<bar>id ([1, 3 :: real] ! 1) - 2\<bar> \<and> (0 :: nat) < 1"
  by (simp add: index_most_closed_def bisect_def bisect_loop.simps getitem_def min_key_def)

text \<open>
  Claim C5, as the code has it. On an empty sequence, for every query and every key,
  \<open>bisect\<close> returns 0 and \<open>index_most_closed\<close> returns the index 0 through its first branch:
  it returns a value and raises nothing.
\<close>

theorem index_most_closed_empty:
  "bisect [] x key = Inr 0 \<and> index_most_closed x [] key = Inr 0"
  by (simp add: index_most_closed_def bisect_def bisect_loop.simps)

theorem index_most_closed_empty_counterexample:
  "index_most_closed 4 ([] :: real list) id = Inr 0"
  by (simp add: index_most_closed_def bisect_def bisect_loop.simps)

subsection \<open>Tolerances\<close>

text \<open>
  Claim C8. A ppm tolerance \<open>t\<close> resolved at the reference value \<open>r\<close> is \<open>t * r / 1_000_000\<close>;
  an absolute tolerance is its own value whatever \<open>r\<close> is; \<open>Ppm(10)\<close> at 1000 is 0.01.
\<close>

theorem resolve_tol_values:
  "resolve_tol (TolPpm (Ppm t)) r = t * r / 1000000 \<and> resolve_tol (TolFloat v) r = v
   \<and> Ppm_call (Ppm 10) 1000 = 0.01 \<and> resolve_tol (TolPpm (Ppm 10)) 1000 = 0.01"
  by (simp add: resolve_tol_def Ppm_call_def)

subsection \<open>The reference list\<close>

text \<open>
  Claim C4, as the code has it. On an empty reference list \<open>find\<close> raises \<open>IndexError\<close>,
  for every query: \<open>most_closed\<close> subscripts the empty list at index 0 before any test
  of tolerance or charge.
\<close>

theorem find_empty:
  "data (snd (DDAList_init [])) = []
   \<and> DDAList_find (snd (DDAList_init [])) m tol ch = Inl IndexError
   \<and> DDAList_find \<lparr>data = []\<rparr> m tol ch = Inl IndexError"
  by (simp add: DDAList_init_def DDAList_find_def most_closed_empty)

theorem find_empty_counterexample:
  "DDAList_find (snd (DDAList_init [])) 1000 (TolFloat 1) 3 \<noteq> Inr None
   \<and> DDAList_find (snd (DDAList_init [])) 1000 (TolFloat 1) 3 = Inl IndexError"
  by (simp add: DDAList_init_def DDAList_find_def most_closed_empty)

text \<open>
  Claim C6. For a non-empty reference list that is ascending by m/z and every query
  \<open>(m, tol, ch)\<close>, \<open>find\<close> raises nothing. Its candidate \<open>c\<close> is the ion at the index
  \<open>index_most_closed\<close> returns, an ion of the list whose m/z is at least as close to \<open>m\<close> as
  that of every ion of the list. With \<open>w\<close> the tolerance resolved against the query \<open>m\<close>,
  which is the number itself for an absolute tolerance and \<open>ppm * m / 1_000_000\<close> for a
  \<open>Ppm\<close>, \<open>find\<close> returns \<open>c\<close> when \<open>abs(c.mz - m) <= w\<close> and \<open>c.charge == ch\<close>, and \<open>None\<close> in
  every other case.
\<close>

theorem find_closest_within_tolerance:
  assumes "data d \<noteq> []" and "sorted (map mz (data d))"
  shows "\<exists>i c. index_most_closed m (data d) mz = Inr i \<and> i < length (data d) \<and> c = data d ! i
           \<and> most_closed m (data d) mz = Inr c \<and> c \<in> set (data d)
           \<and> (\<forall>e\<in>set (data d). \<bar>mz c - m\<bar> \<le> \<bar>mz e - m\<bar>)
           \<and> DDAList_find d m tol ch =
               Inr (if \<bar>mz c - m\<bar> \<le> (case tol of TolFloat t \<Rightarrow> t | TolPpm p \<Rightarrow> ppm p * m / 1000000)
                       \<and> charge c = ch
                    then Some c else None)"
proof -
  obtain i where i: "index_most_closed m (data d) mz = Inr i" "i < length (data d)"
    and best: "\<forall>j<length (data d). \<bar>mz (data d ! i) - m\<bar> \<le> \<bar>mz (data d ! j) - m\<bar>"
    using index_most_closed_sorted[OF assms, of m] by blast
  let ?c = "data d ! i"
  have mc: "most_closed m (data d) mz = Inr ?c"
    using i by (simp add: most_closed_def getitem_def)
  have mem: "?c \<in> set (data d)" using i(2) by simp
  have all: "\<forall>e\<in>set (data d). \<bar>mz ?c - m\<bar> \<le> \<bar>mz e - m\<bar>"
    using best by (auto simp: in_set_conv_nth)
  have w: "resolve_tol tol m = (case tol of TolFloat t \<Rightarrow> t | TolPpm p \<Rightarrow> ppm p * m / 1000000)"
    by (cases tol) (simp_all add: resolve_tol_def Ppm_call_def)
  have res: "DDAList_find d m tol ch =
      Inr (if \<bar>mz ?c - m\<bar> \<le> (case tol of TolFloat t \<Rightarrow> t | TolPpm p \<Rightarrow> ppm p * m / 1000000)
              \<and> charge ?c = ch
           then Some ?c else None)"
    using mc by (simp add: DDAList_find_def w)
  from i mc mem all res show ?thesis by blast
qed

text \<open>
  The theorem on the reference list of the tests at the query \<open>(1000.5, Ppm(1000), 3)\<close>,
  with the four cases of \<open>test_find\<close> and the two sides of the bound for an absolute
  tolerance (a difference of exactly 1 matches, 1.5 does not) and for a ppm tolerance,
  where the window grows with the query: \<open>Ppm(1000)\<close> is 1.001 at 1001 and matches, and is
  1.002 at 1002, where the difference 2 does not match.
\<close>

theorem find_closest_within_tolerance_witness:
  "data test_dda_list \<noteq> [] \<and> sorted (map mz (data test_dda_list))
   \<and> (\<exists>i c. index_most_closed 1000.5 (data test_dda_list) mz = Inr i
          \<and> i < length (data test_dda_list) \<and> c = data test_dda_list ! i
          \<and> most_closed 1000.5 (data test_dda_list) mz = Inr c \<and> c \<in> set (data test_dda_list)
          \<and> (\<forall>e\<in>set (data test_dda_list). \<bar>mz c - 1000.5\<bar> \<le> \<bar>mz e - 1000.5\<bar>)
          \<and> DDAList_find test_dda_list 1000.5 (TolPpm (Ppm 1000)) 3 =
               Inr (if \<bar>mz c - 1000.5\<bar>
                         \<le> (case TolPpm (Ppm 1000) of TolFloat t \<Rightarrow> t
                             | TolPpm p \<Rightarrow> ppm p * 1000.5 / 1000000)
                       \<and> charge c = 3
                    then Some c else None))
   \<and> DDAList_find test_dda_list 1000.5 (TolFloat 1) 3 = Inr (Some \<lparr>mz = 1000, charge = 3\<rparr>)
   \<and> DDAList_find test_dda_list 1000.5 (TolFloat 1) 4 = Inr None
   \<and> DDAList_find test_dda_list 3000 (TolFloat 1) 4 = Inr (Some \<lparr>mz = 3000, charge = 4\<rparr>)
   \<and> DDAList_find test_dda_list 1000.5 (TolPpm (Ppm 1000)) 3 = Inr (Some \<lparr>mz = 1000, charge = 3\<rparr>)
   \<and> DDAList_find test_dda_list 1001 (TolFloat 1) 3 = Inr (Some \<lparr>mz = 1000, charge = 3\<rparr>)
   \<and> DDAList_find test_dda_list 1001.5 (TolFloat 1) 3 = Inr None
   \<and> DDAList_find test_dda_list 1001 (TolPpm (Ppm 1000)) 3 = Inr (Some \<lparr>mz = 1000, charge = 3\<rparr>)
   \<and> DDAList_find test_dda_list 1002 (TolPpm (Ppm 1000)) 3 = Inr None
   \<and> DDAList_find test_dda_list 1002 (TolFloat 1000) 3 = Inr (Some \<lparr>mz = 1000, charge = 3\<rparr>)"
proof -
  note d = test_dda_list_data
  have h1: "data test_dda_list \<noteq> []" by (simp add: d test_ions_def)
  have h2: "sorted (map mz (data test_dda_list))" by (simp add: d test_ions_def)
  have v1: "DDAList_find test_dda_list 1000.5 (TolFloat 1) 3 = Inr (Some \<lparr>mz = 1000, charge = 3\<rparr>)"
    by (simp add: DDAList_find_def d test_ions_def search_eval resolve_tol_def)
  have v2: "DDAList_find test_dda_list 1000.5 (TolFloat 1) 4 = Inr None"
    by (simp add: DDAList_find_def d test_ions_def search_eval resolve_tol_def)
  have v3: "DDAList_find test_dda_list 3000 (TolFloat 1) 4 = Inr (Some \<lparr>mz = 3000, charge = 4\<rparr>)"
    by (simp add: DDAList_find_def d test_ions_def search_eval resolve_tol_def)
  have v4: "DDAList_find test_dda_list 1000.5 (TolPpm (Ppm 1000)) 3 = Inr (Some \<lparr>mz = 1000, charge = 3\<rparr>)"
    by (simp add: DDAList_find_def d test_ions_def search_eval resolve_tol_def Ppm_call_def)
  have v5: "DDAList_find test_dda_list 1001 (TolFloat 1) 3 = Inr (Some \<lparr>mz = 1000, charge = 3\<rparr>)"
    by (simp add: DDAList_find_def d test_ions_def search_eval resolve_tol_def)
  have v6: "DDAList_find test_dda_list 1001.5 (TolFloat 1) 3 = Inr None"
    by (simp add: DDAList_find_def d test_ions_def search_eval resolve_tol_def)
  have v7: "DDAList_find test_dda_list 1001 (TolPpm (Ppm 1000)) 3 = Inr (Some \<lparr>mz = 1000, charge = 3\<rparr>)"
    by (simp add: DDAList_find_def d test_ions_def search_eval resolve_tol_def Ppm_call_def)
  have v8: "DDAList_find test_dda_list 1002 (TolPpm (Ppm 1000)) 3 = Inr None"
    by (simp add: DDAList_find_def d test_ions_def search_eval resolve_tol_def Ppm_call_def)
  have v9: "DDAList_find test_dda_list 1002 (TolFloat 1000) 3 = Inr (Some \<lparr>mz = 1000, charge = 3\<rparr>)"
    by (simp add: DDAList_find_def d test_ions_def search_eval resolve_tol_def)
  show ?thesis
    by (intro conjI h1 h2 v1 v2 v3 v4 v5 v6 v7 v8 v9 find_closest_within_tolerance[OF h1 h2])
qed

text \<open>
  Claim C9. Construction leaves the caller's list as it was; the list of the new object
  has the elements of the input with their multiplicities and is ascending by m/z; and
  after any sequence of calls of its methods the object is the one constructed, so its
  list is still ascending.
\<close>

theorem DDAList_sorted_invariant:
  "fst (DDAList_init l) = l
   \<and> mset (data (snd (DDAList_init l))) = mset l
   \<and> sorted (map mz (data (snd (DDAList_init l))))
   \<and> DDAList_after (snd (DDAList_init l)) ops = snd (DDAList_init l)
   \<and> sorted (map mz (data (DDAList_after (snd (DDAList_init l)) ops)))"
  by (simp add: DDAList_after_same) (simp add: DDAList_init_def)

subsection \<open>The spectrum\<close>




text \<open>
  Claim C10. For a spectrum with a non-empty \<open>mz_a\<close>, when the tolerance resolves to a
  window that is at most 0, \<open>get_intensity\<close> returns 0, whatever the peaks are: no absolute
  difference is strictly below such a window. An absolute tolerance of 0 and any ppm
  tolerance at \<open>mz = 0\<close> resolve to such a window.
\<close>

theorem get_intensity_nonpositive_window:
  assumes "mz_a s \<noteq> []" and "resolve_tol tol m \<le> 0"
  shows "get_intensity s m tol = Inr 0
         \<and> resolve_tol (TolFloat 0) m' \<le> 0 \<and> resolve_tol (TolPpm p) 0 \<le> 0"
proof -
  obtain i where i: "index_most_closed m (mz_a s) id = Inr i" "i < length (mz_a s)"
    using index_most_closed_returns[OF assms(1)] by blast
  have "\<not> \<bar>mz_a s ! i - m\<bar> < resolve_tol tol m" using assms(2) by simp
  with i have "get_intensity s m tol = Inr 0" by (simp add: get_intensity_def getitem_def)
  then show ?thesis by (simp add: resolve_tol_def Ppm_call_def)
qed

text \<open>
  The theorem at a spectrum with the one peak 100 of intensity 5, queried at 100 with the
  absolute tolerance 0: the peak lies at the query, and the intensity returned is 0.
\<close>

theorem get_intensity_nonpositive_window_witness:
  "mz_a \<lparr>scan = 1, precursor_mz = 500, precursor_charge = 2, mz_a = [100], intensity_a = [5]\<rparr> \<noteq> []
   \<and> resolve_tol (TolFloat 0) 100 \<le> 0
   \<and> (get_intensity \<lparr>scan = 1, precursor_mz = 500, precursor_charge = 2, mz_a = [100], intensity_a = [5]\<rparr>
        100 (TolFloat 0) = Inr 0
      \<and> resolve_tol (TolFloat 0) 100 \<le> 0 \<and> resolve_tol (TolPpm (Ppm 20)) 0 \<le> 0)"
proof -
  have h1: "mz_a \<lparr>scan = 1, precursor_mz = 500, precursor_charge = 2, mz_a = [100], intensity_a = [5]\<rparr> \<noteq> []"
    by simp
  have h2: "resolve_tol (TolFloat 0) 100 \<le> 0" by (simp add: resolve_tol_def)
  show ?thesis
    by (intro conjI h1 h2 get_intensity_nonpositive_window[OF h1 h2, THEN conjunct1]
          get_intensity_nonpositive_window[OF h1 h2, THEN conjunct2, THEN conjunct1]
          get_intensity_nonpositive_window[OF h1 h2, THEN conjunct2, THEN conjunct2])
qed


subsection \<open>The searcher\<close>

text \<open>
  Claim C3, at the tolerance \<open>Ppm(100)\<close>. The least gap of two consecutive reporters is
  0.006319, and the tolerance resolves to 0.013113818 at the largest reporter, which is
  above that gap. \<open>min_diff(REPORTERS)\<close> is \<open>True\<close>, the validator accepts the tolerance
  and construction succeeds; so it does for the absolute tolerance 0.5.
\<close>

theorem check_ms2_tol_accepts_wide_tolerance:
  "min_diff REPORTERS = Inr (PyBool True)
   \<and> spec_min_gap REPORTERS = Some 0.006319
   \<and> resolve_tol (TolPpm (Ppm 100)) 131.138180 = 0.013113818
   \<and> (0.006319 :: real) < 0.013113818
   \<and> check_ms2_tol (TolPpm (Ppm 100)) = Inr ()
   \<and> ReporterSearcher_init d t1 (TolPpm (Ppm 100))
       = Inr \<lparr>dda_list = d, ms1_tol = t1, ms2_tol = TolPpm (Ppm 100)\<rparr>
   \<and> check_ms2_tol (TolFloat 0.5) = Inr ()"
  by (simp add: min_diff_REPORTERS spec_min_gap_REPORTERS ReporterSearcher_init_def
        check_ms2_tol_threshold resolve_tol_def Ppm_call_def)

text \<open>
  What \<open>run\<close> does with one spectrum and the spectra after it. It takes the spectra one at
  a time, in order: the outcome for a spectrum comes before all the outcomes for the
  spectra after it. For a spectrum on which \<open>find\<close> returns \<open>None\<close> nothing is yielded and
  nothing is raised, and the run goes on. For a spectrum on which \<open>find\<close> returns an ion and
  every call of \<open>get_intensity\<close> for a reporter returns, exactly one record is yielded: its
  scan is the spectrum's, its precursor m/z is the m/z of the ion found, and its dict has
  the keys \<open>REPORTERS\<close> in that order, each with the value \<open>get_intensity\<close> returns for it.
  An exception of \<open>find\<close>, or of \<open>get_intensity\<close> at the first reporter for which it raises,
  is the exception of the body, and an exception of the body ends the run: nothing is
  yielded for the spectrum and the spectra after it are not taken.
\<close>

lemma run_emits_records:
  "run self [] = ([], None)
   \<and> (DDAList_find (dda_list self) (precursor_mz spec) (ms1_tol self) (precursor_charge spec) = Inr None
        \<longrightarrow> run_body self spec = Inr None \<and> run self (spec # rest) = run self rest)
   \<and> (DDAList_find (dda_list self) (precursor_mz spec) (ms1_tol self) (precursor_charge spec) = Inr (Some ion)
        \<and> (\<forall>k\<in>set REPORTERS. \<exists>v. get_intensity spec k (ms2_tol self) = Inr v)
        \<longrightarrow> (\<exists>d. map fst d = REPORTERS
                 \<and> (\<forall>i<length d. get_intensity spec (fst (d ! i)) (ms2_tol self) = Inr (snd (d ! i)))
                 \<and> run_body self spec = Inr (Some (SearchRecord (scan spec) (mz ion) d))
                 \<and> run self (spec # rest)
                     = (SearchRecord (scan spec) (mz ion) d # fst (run self rest), snd (run self rest))))
   \<and> (DDAList_find (dda_list self) (precursor_mz spec) (ms1_tol self) (precursor_charge spec) = Inl e
        \<longrightarrow> run_body self spec = Inl e \<and> run self (spec # rest) = ([], Some e))
   \<and> (DDAList_find (dda_list self) (precursor_mz spec) (ms1_tol self) (precursor_charge spec) = Inr (Some ion)
        \<and> REPORTERS = ks @ k # ks'
        \<and> (\<forall>j\<in>set ks. \<exists>v. get_intensity spec j (ms2_tol self) = Inr v)
        \<and> get_intensity spec k (ms2_tol self) = Inl e
        \<longrightarrow> run_body self spec = Inl e \<and> run self (spec # rest) = ([], Some e))"
proof (intro conjI impI)
  show "run self [] = ([], None)" by simp
next
  assume "DDAList_find (dda_list self) (precursor_mz spec) (ms1_tol self) (precursor_charge spec) = Inr None"
  then show "run_body self spec = Inr None" by (simp add: run_body_def)
  then show "run self (spec # rest) = run self rest" by simp
next
  assume a: "DDAList_find (dda_list self) (precursor_mz spec) (ms1_tol self) (precursor_charge spec) = Inr (Some ion)
        \<and> (\<forall>k\<in>set REPORTERS. \<exists>v. get_intensity spec k (ms2_tol self) = Inr v)"
  then obtain d where d: "dict_comp spec (ms2_tol self) REPORTERS [] = Inr d" "map fst d = REPORTERS"
      "\<forall>i<length d. get_intensity spec (fst (d ! i)) (ms2_tol self) = Inr (snd (d ! i))"
    using dict_comp_REPORTERS[of spec "ms2_tol self"] by blast
  have b: "run_body self spec = Inr (Some (SearchRecord (scan spec) (mz ion) d))"
    using a d(1) by (simp add: run_body_def)
  then have "run self (spec # rest)
      = (SearchRecord (scan spec) (mz ion) d # fst (run self rest), snd (run self rest))"
    by (simp add: case_prod_beta)
  with d(2,3) b show "\<exists>d. map fst d = REPORTERS
       \<and> (\<forall>i<length d. get_intensity spec (fst (d ! i)) (ms2_tol self) = Inr (snd (d ! i)))
       \<and> run_body self spec = Inr (Some (SearchRecord (scan spec) (mz ion) d))
       \<and> run self (spec # rest)
           = (SearchRecord (scan spec) (mz ion) d # fst (run self rest), snd (run self rest))"
    by blast
next
  assume "DDAList_find (dda_list self) (precursor_mz spec) (ms1_tol self) (precursor_charge spec) = Inl e"
  then show "run_body self spec = Inl e" by (simp add: run_body_def)
  then show "run self (spec # rest) = ([], Some e)" by simp
next
  assume a: "DDAList_find (dda_list self) (precursor_mz spec) (ms1_tol self) (precursor_charge spec) = Inr (Some ion)
        \<and> REPORTERS = ks @ k # ks'
        \<and> (\<forall>j\<in>set ks. \<exists>v. get_intensity spec j (ms2_tol self) = Inr v)
        \<and> get_intensity spec k (ms2_tol self) = Inl e"
  then have "dict_comp spec (ms2_tol self) (ks @ k # ks') [] = Inl e"
    by (intro dict_comp_raises) simp_all
  with a have "dict_comp spec (ms2_tol self) REPORTERS [] = Inl e" by simp
  with a show "run_body self spec = Inl e" by (simp add: run_body_def)
  then show "run self (spec # rest) = ([], Some e)" by simp
qed

text \<open>
  The lemma on a run of the example searcher: \<open>spec_miss\<close> matches no ion and yields
  nothing, and \<open>spec_hit\<close> matches the ion \<open>(1000, 3)\<close> and yields one record, with the
  intensities 10 and 20 at the first and the last reporter and 0 at the others.
\<close>

lemma run_emits_records_example:
  "DDAList_find (dda_list test_searcher) (precursor_mz spec_miss) (ms1_tol test_searcher)
     (precursor_charge spec_miss) = Inr None
   \<and> (run_body test_searcher spec_miss = Inr None
      \<and> run test_searcher (spec_miss # [spec_hit]) = run test_searcher [spec_hit])
   \<and> (DDAList_find (dda_list test_searcher) (precursor_mz spec_hit) (ms1_tol test_searcher)
        (precursor_charge spec_hit) = Inr (Some \<lparr>mz = 1000, charge = 3\<rparr>)
      \<and> map (\<lambda>k. get_intensity spec_hit k (ms2_tol test_searcher)) REPORTERS
          = map Inr [10, 0, 0, 0, 0, 0, 0, 0, 0, 20])
   \<and> (\<exists>d. map fst d = REPORTERS
          \<and> (\<forall>i<length d. get_intensity spec_hit (fst (d ! i)) (ms2_tol test_searcher) = Inr (snd (d ! i)))
          \<and> run_body test_searcher spec_hit
              = Inr (Some (SearchRecord (scan spec_hit) (mz \<lparr>mz = 1000, charge = 3\<rparr>) d))
          \<and> run test_searcher (spec_hit # [])
              = (SearchRecord (scan spec_hit) (mz \<lparr>mz = 1000, charge = 3\<rparr>) d # fst (run test_searcher []),
                 snd (run test_searcher [])))
   \<and> run test_searcher [spec_miss, spec_hit] =
       ([SearchRecord 7 1000
          [(126.127726, 10), (127.124761, 0), (127.131081, 0), (128.128116, 0), (128.134436, 0),
           (129.131471, 0), (129.137790, 0), (130.134825, 0), (130.141145, 0), (131.138180, 20)]],
        None)"
proof -
  note miss = run_emits_records[where self = test_searcher and spec = spec_miss and rest = "[spec_hit]",
      THEN conjunct2, THEN conjunct1, THEN mp, OF find_spec_miss]
  have hyp: "DDAList_find (dda_list test_searcher) (precursor_mz spec_hit) (ms1_tol test_searcher)
        (precursor_charge spec_hit) = Inr (Some \<lparr>mz = 1000, charge = 3\<rparr>)
      \<and> (\<forall>k\<in>set REPORTERS. \<exists>v. get_intensity spec_hit k (ms2_tol test_searcher) = Inr v)"
    using find_spec_hit spec_hit_returns by (rule conjI)
  note hit = run_emits_records[where self = test_searcher and spec = spec_hit
      and ion = "\<lparr>mz = 1000, charge = 3\<rparr>" and rest = "[]",
      THEN conjunct2, THEN conjunct2, THEN conjunct1, THEN mp, OF hyp]
  have vals: "map (\<lambda>k. get_intensity spec_hit k (ms2_tol test_searcher)) REPORTERS
      = map Inr [10, 0, 0, 0, 0, 0, 0, 0, 0, 20]"
    by (simp add: REPORTERS_def test_searcher_def get_intensity_def spec_hit_def search_eval
          resolve_tol_def Ppm_call_def)
  show ?thesis
    by (intro conjI find_spec_miss miss[THEN conjunct1] miss[THEN conjunct2] find_spec_hit
          vals hit run_miss_hit)
qed

text \<open>
  Claim C2, at a spectrum without peaks whose precursor matches. The claim asks for exactly
  one record when \<open>find\<close> returns an ion, and the docstring of \<open>get_intensity\<close> says
  \<^verbatim>\<open>If no peak is found, 0 will be returned\<close>. On \<open>spec_empty\<close> the searcher, which
  construction accepts, finds the ion \<open>(1000, 3)\<close>; \<open>index_most_closed\<close> returns 0 on the
  empty \<open>mz_a\<close> and \<open>get_intensity\<close> raises \<open>IndexError\<close> at the first reporter instead of
  returning 0. The body raises, the run yields no record for the spectrum and ends with the
  exception, and the matching spectrum \<open>spec_hit\<close> after it is not taken.
\<close>

theorem run_empty_spectrum_raises:
  "ReporterSearcher_init test_dda_list (TolPpm (Ppm 20)) (TolPpm (Ppm 20)) = Inr test_searcher
   \<and> DDAList_find (dda_list test_searcher) (precursor_mz spec_empty) (ms1_tol test_searcher)
       (precursor_charge spec_empty) = Inr (Some \<lparr>mz = 1000, charge = 3\<rparr>)
   \<and> index_most_closed 126.127726 (mz_a spec_empty) id = Inr 0
   \<and> get_intensity spec_empty 126.127726 (ms2_tol test_searcher) = Inl IndexError
   \<and> run_body test_searcher spec_empty = Inl IndexError
   \<and> run test_searcher [spec_empty] = ([], Some IndexError)
   \<and> run test_searcher [spec_empty, spec_hit] = ([], Some IndexError)
   \<and> run test_searcher [spec_hit] =
       ([SearchRecord 7 1000
          [(126.127726, 10), (127.124761, 0), (127.131081, 0), (128.128116, 0), (128.134436, 0),
           (129.131471, 0), (129.137790, 0), (130.134825, 0), (130.141145, 0), (131.138180, 20)]],
        None)"
proof -
  have i: "index_most_closed 126.127726 (mz_a spec_empty) id = Inr 0"
    by (simp add: spec_empty_def index_most_closed_def bisect_def bisect_loop.simps)
  have c: "ReporterSearcher_init test_dda_list (TolPpm (Ppm 20)) (TolPpm (Ppm 20)) = Inr test_searcher"
    by (simp add: ReporterSearcher_init_def check_ms2_tol_threshold resolve_tol_def Ppm_call_def
          test_searcher_def)
  have m: "run_body test_searcher spec_miss = Inr None"
    using find_spec_miss by (simp add: run_body_def)
  have h: "run test_searcher [spec_hit] =
       ([SearchRecord 7 1000
          [(126.127726, 10), (127.124761, 0), (127.131081, 0), (128.128116, 0), (128.134436, 0),
           (129.131471, 0), (129.137790, 0), (130.134825, 0), (130.141145, 0), (131.138180, 20)]],
        None)"
    using run_miss_hit by (simp add: m)
  have r1: "run test_searcher [spec_empty] = ([], Some IndexError)"
    by (simp add: run_body_spec_empty)
  have r2: "run test_searcher [spec_empty, spec_hit] = ([], Some IndexError)"
    by (simp add: run_body_spec_empty)
  show ?thesis
    by (intro conjI c find_spec_empty i get_intensity_spec_empty run_body_spec_empty r1 r2 h)
qed

end
